theory Spec2Isabelle
  imports Main
begin

section \<open>The message catalog (app/__init__.py, class Msg)\<close>

text \<open>
  Python strings are kept as \<open>string\<close>; the accented letters of the Spanish texts
  are written as their UTF-8 bytes. The catalog is a class with nested classes whose
  attributes are string constants: a table from class name to a table from attribute
  name to text. Reading an attribute that the class does not define raises
  AttributeError, which is a value of the model; so is the ValueError with which
  Flask's \<open>redirect\<close> refuses a location (see below).
\<close>

datatype error = AttributeError string | ValueError string

definition Msg_Flash :: "(string \<times> string) list" where
  "Msg_Flash =
    [(''LOGOUT_USER'', ''Ha cerrado sesi'' @ [CHR 0xC3, CHR 0xB3] @ ''n correctamente.''),
     (''NEW_USER'', ''Bienvenido {first_name}.''),
     (''INVALID_CREDENTIALS'',
        ''Correo o contrase'' @ [CHR 0xC3, CHR 0xB1] @ ''a inv'' @ [CHR 0xC3, CHR 0xA1] @ ''lidos.'')]"

definition Msg_UserRegistration :: "(string \<times> string) list" where
  "Msg_UserRegistration =
    [(''ERROR_REQUIRED_FIELD'', ''Este campo es obligatorio.''),
     (''ERROR_PASSWORD_MATCH'',
        ''Las contrase'' @ [CHR 0xC3, CHR 0xB1] @ ''as deben coincidir.''),
     (''ERROR_EMAIL_IN_USE'',
        ''La direcci'' @ [CHR 0xC3, CHR 0xB3] @ ''n de correo ya ha sido registrada.''),
     (''ERROR_ACCEPT_TERMS'',
        ''Debe aceptar los t'' @ [CHR 0xC3, CHR 0xA9] @ ''rminos y condiciones para continuar.''),
     (''ERROR_INVALID_EMAIL'',
        ''Por favor introduzca una direcci'' @ [CHR 0xC3, CHR 0xB3] @ ''n de correo v''
          @ [CHR 0xC3, CHR 0xA1] @ ''lida.''),
     (''ERROR_PASSWORD_LENGTH'',
        ''La contrase'' @ [CHR 0xC3, CHR 0xB1] @ ''a debe medir entre 8 y 64 caracteres.''),
     (''ERROR_PASSWORD_AT_LEAST_ONE_NUMBER'',
        ''La contrase'' @ [CHR 0xC3, CHR 0xB1] @ ''a debe conenter al menos un n''
          @ [CHR 0xC3, CHR 0xBA] @ ''mero.''),
     (''ERROR_PASSWORD_AT_LEAST_ONE_UPPERCASE'',
        ''La contrase'' @ [CHR 0xC3, CHR 0xB1] @ ''a debe conenter al menos una letra may''
          @ [CHR 0xC3, CHR 0xBA] @ ''scula.''),
     (''ERROR_PASSWORD_AT_LEAST_ONE_LOWERCASE'',
        ''La contrase'' @ [CHR 0xC3, CHR 0xB1] @ ''a debe conenter al menos una letra min''
          @ [CHR 0xC3, CHR 0xBA] @ ''scula.''),
     (''ERROR_PASSWORD_AT_LEAST_ONE_SPECIAL_CHARACTER'',
        ''La contrase'' @ [CHR 0xC3, CHR 0xB1]
          @ ''a debe contener al menos un caracter especial: {}.''),
     (''ACCEPT_TERMS'',
        ''He le'' @ [CHR 0xC3, CHR 0xAD] @ ''do y acepto los t'' @ [CHR 0xC3, CHR 0xA9]
          @ ''rminos y condiciones.'')]"

definition Msg :: "(string \<times> (string \<times> string) list) list" where
  "Msg = [(''Flash'', Msg_Flash), (''UserRegistration'', Msg_UserRegistration)]"

text \<open>\<open>Msg.<cls>.<key>\<close>: two attribute reads, either of which may raise.\<close>

definition Msg_attr :: "string \<Rightarrow> string \<Rightarrow> error + string" where
  "Msg_attr cls key =
     (case map_of Msg cls of
        None \<Rightarrow> Inl (AttributeError cls)
      | Some tbl \<Rightarrow>
          (case map_of tbl key of
             None \<Rightarrow> Inl (AttributeError key)
           | Some m \<Rightarrow> Inr m))"


section \<open>Data model\<close>

text \<open>
  The user document of app/models.py, with the fields that \<open>register\<close> passes to
  \<open>User.create_new_user\<close>. The digest type is left open: the handlers never look
  inside a password hash.
\<close>

record 'd User =
  email :: string
  first_name :: string
  paternal_last_name :: string
  maternal_last_name :: string
  birth_date :: string
  gender :: string
  occupation :: string
  password_hash :: 'd

text \<open>The form classes of app/auth/forms.py, as the fields the handlers read.\<close>

record LoginForm =
  lf_email :: string
  lf_password :: string
  lf_remember_me :: bool

record RegisterForm =
  rf_email :: string
  rf_first_name :: string
  rf_paternal_last_name :: string
  rf_maternal_last_name :: string
  rf_birth_date :: string
  rf_gender :: string
  rf_occupation :: string
  rf_password :: string

record ChangePasswordForm =
  cf_old_password :: string
  cf_password :: string

record PasswordResetRequestForm =
  qf_email :: string

record PasswordResetForm =
  pf_password :: string

text \<open>
  Modelled from the spec: the reset token of section 3 (app/models.py is not among
  the sources at hand). A token is bound to one user, carries an expiry and is consumed
  by a successful reset.
\<close>

record reset_token =
  tok_value :: nat
  tok_email :: string
  tok_expiry :: nat
  tok_consumed :: bool

text \<open>One call of \<open>send_email(to, subject, template, user=user, token=token)\<close>.\<close>

record mail =
  mail_to :: string
  mail_subject :: string
  mail_template :: string
  mail_token :: nat

text \<open>
  What a handler can read and change: the credential store, the issued reset tokens,
  the login session (\<open>current_user\<close> is \<open>None\<close> for an anonymous caller), the
  flashed messages and the mails handed to the notifier.
\<close>

record 'd state =
  users :: "'d User list"
  reset_tokens :: "reset_token list"
  current_user :: "'d User option"
  login_fresh :: bool
  remember :: bool
  flashes :: "string list"
  outbox :: "mail list"

text \<open>
  A redirect target is either a string taken from the request or the result of
  \<open>url_for(endpoint)\<close> / \<open>url_for(endpoint, next=...)\<close>; the routing table that
  turns endpoints into paths belongs to the framework.
\<close>

datatype location = Path string | UrlFor string "location option"

datatype response =
    Redirect location
  | RenderTemplate string
  | Unauthorized
  | NeedsRefresh

definition url_for :: "string \<Rightarrow> location" where
  "url_for endpoint = UrlFor endpoint None"

definition url_for_next :: "string \<Rightarrow> location \<Rightarrow> location" where
  "url_for_next endpoint nxt = UrlFor endpoint (Some nxt)"

section \<open>Collaborators\<close>

text \<open>
  The password hasher and the lifetime of a reset token are parameters of every
  handler: \<open>generate_password_hash\<close> and the verification behind
  \<open>User.check_password\<close> are imported from app/models.py.
\<close>

record 'd env =
  generate_password_hash :: "string \<Rightarrow> 'd"
  check_password_hash :: "'d \<Rightarrow> string \<Rightarrow> bool"
  token_lifetime :: nat

type_synonym ('a, 'd) handler = "'d state \<Rightarrow> (error + 'a) \<times> 'd state"

definition return_h :: "'a \<Rightarrow> ('a, 'd) handler" where
  "return_h a s = (Inr a, s)"

definition bind_h :: "('a, 'd) handler \<Rightarrow> ('a \<Rightarrow> ('b, 'd) handler) \<Rightarrow> ('b, 'd) handler" where
  "bind_h m f s = (case m s of (Inl e, s') \<Rightarrow> (Inl e, s') | (Inr a, s') \<Rightarrow> f a s')"

definition then_h :: "(unit, 'd) handler \<Rightarrow> ('b, 'd) handler \<Rightarrow> ('b, 'd) handler" where
  "then_h m k = bind_h m (\<lambda>_. k)"

text \<open>An attribute read of the catalog inside a handler.\<close>

definition Msg_h :: "string \<Rightarrow> string \<Rightarrow> (string, 'd) handler" where
  "Msg_h cls key s = (Msg_attr cls key, s)"

text \<open>\<open>flash(text)\<close> of Flask: the text is appended to the session's messages.\<close>

definition flash :: "string \<Rightarrow> (unit, 'd) handler" where
  "flash m s = (Inr (), s\<lparr>flashes := flashes s @ [m]\<rparr>)"

text \<open>\<open>flash(Msg.<cls>.<key>)\<close>: the argument is evaluated first.\<close>

definition flash_Msg :: "string \<Rightarrow> string \<Rightarrow> (unit, 'd) handler" where
  "flash_Msg cls key = bind_h (Msg_h cls key) flash"

text \<open>
  \<open>redirect(location)\<close> of Flask builds the response and sets its Location header.
  Werkzeug refuses a header value that holds a carriage return or a line feed with a
  ValueError, so a string taken from the request can make the call raise. The result
  of \<open>url_for\<close> is percent-encoded and never holds one.
\<close>

definition has_newline :: "string \<Rightarrow> bool" where
  "has_newline v = (CHR 0x0A \<in> set v \<or> CHR 0x0D \<in> set v)"

definition redirect :: "location \<Rightarrow> (response, 'd) handler" where
  "redirect l s =
     (case l of
        Path p \<Rightarrow>
          if has_newline p
          then (Inl (ValueError ''Header values must not contain newline characters.''), s)
          else (Inr (Redirect l), s)
      | UrlFor endpoint nxt \<Rightarrow> (Inr (Redirect l), s))"

definition render_template :: "string \<Rightarrow> (response, 'd) handler" where
  "render_template t = return_h (RenderTemplate t)"

text \<open>
  Modelled from the spec: the session interface of section 6 (Flask-Login's
  \<open>login_user\<close> and \<open>logout_user\<close>): establish(user, remember) and destroy().
\<close>

definition login_user :: "'d User \<Rightarrow> bool \<Rightarrow> (unit, 'd) handler" where
  "login_user u r s = (Inr (), s\<lparr>current_user := Some u, login_fresh := True, remember := r\<rparr>)"

definition logout_user :: "(unit, 'd) handler" where
  "logout_user s = (Inr (), s\<lparr>current_user := None, login_fresh := False, remember := False\<rparr>)"

text \<open>
  Modelled from the spec: the store interface of section 6 (\<open>User.get_user\<close>,
  \<open>User.create_new_user\<close> and \<open>save\<close> of app/models.py): find_user_by_email,
  create_user(fields) with a hashed password, and save(user), which replaces the
  stored record of that email or adds a new one.
\<close>

definition get_user :: "string \<Rightarrow> 'd state \<Rightarrow> 'd User option" where
  "get_user e s = find (\<lambda>u. email u = e) (users s)"

definition check_password :: "'d env \<Rightarrow> 'd User \<Rightarrow> string \<Rightarrow> bool" where
  "check_password H u pw = check_password_hash H (password_hash u) pw"

definition create_new_user :: "'d env \<Rightarrow> RegisterForm \<Rightarrow> 'd User" where
  "create_new_user H f =
     \<lparr>email = rf_email f, first_name = rf_first_name f,
      paternal_last_name = rf_paternal_last_name f,
      maternal_last_name = rf_maternal_last_name f,
      birth_date = rf_birth_date f, gender = rf_gender f,
      occupation = rf_occupation f,
      password_hash = generate_password_hash H (rf_password f)\<rparr>"

definition save_user :: "'d User \<Rightarrow> 'd User list \<Rightarrow> 'd User list" where
  "save_user u us =
     (if find (\<lambda>v. email v = email u) us = None then us @ [u]
      else map (\<lambda>v. if email v = email u then u else v) us)"

definition save :: "'d User \<Rightarrow> (unit, 'd) handler" where
  "save u s = (Inr (), s\<lparr>users := save_user u (users s)\<rparr>)"

text \<open>
  Modelled from the spec: the token generator of section 4.2
  (\<open>User.generate_reset_token\<close> and \<open>User.reset_password\<close> of app/models.py).
  generate(user) issues a token not issued before, bound to the user's email and
  expiring \<open>token_lifetime\<close> after the request time. A token validates when it is
  known, unexpired and unconsumed, and its user is still stored; a successful reset
  sets the new password hash and consumes the token.
\<close>

definition fresh_token :: "reset_token list \<Rightarrow> nat" where
  "fresh_token ts = Suc (fold max (map tok_value ts) 0)"

definition generate_reset_token :: "'d env \<Rightarrow> nat \<Rightarrow> 'd User \<Rightarrow> (nat, 'd) handler" where
  "generate_reset_token H now u s =
     (let t = fresh_token (reset_tokens s) in
      (Inr t, s\<lparr>reset_tokens := reset_tokens s @
          [\<lparr>tok_value = t, tok_email = email u,
            tok_expiry = now + token_lifetime H, tok_consumed = False\<rparr>]\<rparr>))"

definition consume :: "nat \<Rightarrow> reset_token list \<Rightarrow> reset_token list" where
  "consume t ts = map (\<lambda>k. if tok_value k = t then k\<lparr>tok_consumed := True\<rparr> else k) ts"

definition reset_password :: "'d env \<Rightarrow> nat \<Rightarrow> nat \<Rightarrow> string \<Rightarrow> (bool, 'd) handler" where
  "reset_password H now token pw s =
     (case find (\<lambda>k. tok_value k = token) (reset_tokens s) of
        None \<Rightarrow> (Inr False, s)
      | Some k \<Rightarrow>
          if tok_consumed k \<or> tok_expiry k \<le> now then (Inr False, s)
          else
            (case get_user (tok_email k) s of
               None \<Rightarrow> (Inr False, s)
             | Some u \<Rightarrow>
                 (Inr True,
                  s\<lparr>users := save_user (u\<lparr>password_hash := generate_password_hash H pw\<rparr>) (users s),
                    reset_tokens := consume token (reset_tokens s)\<rparr>)))"

text \<open>
  Modelled from the spec: the email interface of section 6 (\<open>send_email\<close> of
  app/email.py): fire-and-forget, the mail is handed to the notifier.
\<close>

definition send_email :: "string \<Rightarrow> string \<Rightarrow> string \<Rightarrow> nat \<Rightarrow> (unit, 'd) handler" where
  "send_email to subject template token s =
     (Inr (), s\<lparr>outbox := outbox s @
         [\<lparr>mail_to = to, mail_subject = subject, mail_template = template,
           mail_token = token\<rparr>]\<rparr>)"

text \<open>\<open>s.startswith(p)\<close> of Python.\<close>

definition startswith :: "string \<Rightarrow> string \<Rightarrow> bool" where
  "startswith s p = (take (length p) s = p)"

text \<open>
  \<open>template.format(key=v)\<close> for a template whose only replacement field is
  \<open>{key}\<close>: every occurrence of the field is replaced by \<open>v\<close>.
\<close>

function format_field :: "string \<Rightarrow> string \<Rightarrow> string \<Rightarrow> string" where
  "format_field key v [] = []"
| "format_field key v (c # cs) =
     (if take (Suc (Suc (length key))) (c # cs) = ''{'' @ key @ ''}''
      then v @ format_field key v (drop (Suc (length key)) cs)
      else c # format_field key v cs)"
  by pat_completeness auto
termination
  by (relation "measure (\<lambda>(key, v, t). length t)") auto


section \<open>The request handlers (app/auth/views.py)\<close>

text \<open>
  A handler takes the collaborators, what it reads from the request (the \<open>next\<close>
  query parameter, the token of the path, the request time where a token is issued or
  validated) and the submitted form: \<open>Some f\<close> when \<open>form.validate_on_submit()\<close>
  holds, \<open>None\<close> otherwise. The \<open>print\<close> calls write debug lines to standard output
  only and are left out.
\<close>

definition login :: "'d env \<Rightarrow> string option \<Rightarrow> LoginForm option \<Rightarrow> (response, 'd) handler" where
  "login H args_next form s =
     (if current_user s \<noteq> None then
        then_h (flash_Msg ''Flash'' ''ALREADY_LOGGED_IN'') (redirect (url_for ''main.index'')) s
      else
        (case form of
           Some f \<Rightarrow>
             (case get_user (lf_email f) s of
                None \<Rightarrow>
                  then_h (flash_Msg ''Flash'' ''INVALID_CREDENTIALS'')
                    (redirect (url_for ''auth.login'')) s
              | Some user \<Rightarrow>
                  (let nxt =
                     (case args_next of
                        None \<Rightarrow> url_for ''main.index''
                      | Some n \<Rightarrow>
                          if \<not> startswith n ''/'' then url_for ''main.index'' else Path n)
                   in
                     if \<not> check_password H user (lf_password f) then
                       then_h (flash_Msg ''Flash'' ''INVALID_CREDENTIALS'')
                         (redirect (url_for_next ''auth.login'' nxt)) s
                     else
                       then_h (login_user user (lf_remember_me f)) (redirect nxt) s))
         | None \<Rightarrow> render_template ''auth/login.html'' s))"

definition register :: "'d env \<Rightarrow> RegisterForm option \<Rightarrow> (response, 'd) handler" where
  "register H form s =
     (case form of
        Some f \<Rightarrow>
          if get_user (rf_email f) s \<noteq> None then
            then_h (flash_Msg ''UserRegistration'' ''ERROR_EMAIL_IN_USE'')
              (redirect (url_for ''auth.register'')) s
          else
            (let new_user = create_new_user H f in
               then_h (save new_user)
                 (then_h (login_user new_user False)
                    (then_h
                       (bind_h (Msg_h ''Flash'' ''NEW_USER'')
                          (\<lambda>t. flash (format_field ''first_name'' (first_name new_user) t)))
                       (redirect (url_for ''main.index'')))) s)
      | None \<Rightarrow> render_template ''auth/register.html'' s)"

definition logout :: "(response, 'd) handler" where
  "logout s =
     (if current_user s \<noteq> None then
        then_h logout_user
          (then_h (flash_Msg ''Flash'' ''LOGOUT_USER'') (redirect (url_for ''main.index''))) s
      else redirect (url_for ''main.index'') s)"

text \<open>
  \<open>@fresh_login_required\<close> of Flask-Login answers for the handler when the caller is
  anonymous (\<open>Unauthorized\<close>) or the session is not fresh (\<open>NeedsRefresh\<close>).
\<close>

definition change_password :: "'d env \<Rightarrow> ChangePasswordForm option \<Rightarrow> (response, 'd) handler" where
  "change_password H form s =
     (case current_user s of
        None \<Rightarrow> return_h Unauthorized s
      | Some cu \<Rightarrow>
          if \<not> login_fresh s then return_h NeedsRefresh s
          else
            (case form of
               Some f \<Rightarrow>
                 if check_password H cu (cf_old_password f) \<and> cf_old_password f = cf_password f
                 then
                   then_h (flash_Msg ''Flash'' ''SAME_AS_OLD_PASSWORD'')
                     (redirect (url_for ''auth.change_password'')) s
                 else if \<not> check_password H cu (cf_old_password f) then
                   then_h (flash_Msg ''Flash'' ''INVALID_OLD_PASSWORD'')
                     (redirect (url_for ''auth.change_password'')) s
                 else
                   (case get_user (email cu) s of
                      None \<Rightarrow> redirect (url_for ''error.not_found'') s
                    | Some user \<Rightarrow>
                        then_h
                          (save (user\<lparr>password_hash := generate_password_hash H (cf_password f)\<rparr>))
                          (then_h (flash_Msg ''Flash'' ''PASSWORD_CHANGE_SUCCESFUL'')
                             (redirect (url_for ''main.index''))) s)
             | None \<Rightarrow> render_template ''auth/change_password.html'' s))"

definition password_reset_request ::
  "'d env \<Rightarrow> nat \<Rightarrow> PasswordResetRequestForm option \<Rightarrow> (response, 'd) handler" where
  "password_reset_request H now form s =
     (if current_user s \<noteq> None then redirect (url_for ''main.index'') s
      else
        (case form of
           Some f \<Rightarrow>
             then_h
               (case get_user (qf_email f) s of
                  Some user \<Rightarrow>
                    bind_h (generate_reset_token H now user)
                      (\<lambda>token.
                         bind_h (Msg_h ''Mail'' ''RESET_PASSWORD_SUBJECT'')
                           (\<lambda>subject.
                              send_email (email user) subject ''auth/email/reset_password'' token))
                | None \<Rightarrow> return_h ())
               (then_h (flash_Msg ''Flash'' ''PASSWORD_RESET_EMAIL_SENT'')
                  (redirect (url_for ''auth.login''))) s
         | None \<Rightarrow> render_template ''auth/reset_password.html'' s))"

definition password_reset ::
  "'d env \<Rightarrow> nat \<Rightarrow> nat \<Rightarrow> PasswordResetForm option \<Rightarrow> (response, 'd) handler" where
  "password_reset H now token form s =
     (if current_user s \<noteq> None then redirect (url_for ''main.index'') s
      else
        (case form of
           Some f \<Rightarrow>
             bind_h (reset_password H now token (pf_password f))
               (\<lambda>ok.
                  if ok then
                    then_h (flash_Msg ''Flash'' ''PASSWORD_CHANGE_SUCCESFUL'')
                      (redirect (url_for ''auth.login''))
                  else redirect (url_for ''main.index'')) s
         | None \<Rightarrow> render_template ''auth/reset_password.html'' s))"

section \<open>Example data\<close>

abbreviation LOGOUT_USER_text :: string where
  "LOGOUT_USER_text \<equiv> ''Ha cerrado sesi'' @ [CHR 0xC3, CHR 0xB3] @ ''n correctamente.''"

abbreviation INVALID_CREDENTIALS_text :: string where
  "INVALID_CREDENTIALS_text \<equiv>
     ''Correo o contrase'' @ [CHR 0xC3, CHR 0xB1] @ ''a inv'' @ [CHR 0xC3, CHR 0xA1] @ ''lidos.''"

abbreviation ERROR_EMAIL_IN_USE_text :: string where
  "ERROR_EMAIL_IN_USE_text \<equiv>
     ''La direcci'' @ [CHR 0xC3, CHR 0xB3] @ ''n de correo ya ha sido registrada.''"

text \<open>A hasher that keeps the plaintext behind a tag, for running the handlers.\<close>

definition example_env :: "string env" where
  "example_env =
     \<lparr>generate_password_hash = (\<lambda>p. ''h:'' @ p),
      check_password_hash = (\<lambda>d p. d = ''h:'' @ p),
      token_lifetime = 3600\<rparr>"

definition ana :: "string User" where
  "ana =
     \<lparr>email = ''a@example.com'', first_name = ''Ana'', paternal_last_name = ''Paz'',
      maternal_last_name = ''Lara'', birth_date = ''1990-01-01'', gender = ''F'',
      occupation = ''Docente'', password_hash = ''h:Secreta1!''\<rparr>"

definition anonymous_state :: "string state" where
  "anonymous_state =
     \<lparr>users = [ana], reset_tokens = [], current_user = None, login_fresh = False,
      remember = False, flashes = [], outbox = []\<rparr>"

definition logged_in_state :: "string state" where
  "logged_in_state = anonymous_state\<lparr>current_user := Some ana, login_fresh := True\<rparr>"

definition token_state :: "string state" where
  "token_state =
     anonymous_state\<lparr>reset_tokens :=
       [\<lparr>tok_value = 1, tok_email = ''a@example.com'', tok_expiry = 3600,
         tok_consumed = False\<rparr>]\<rparr>"

definition ana_login :: LoginForm where
  "ana_login = \<lparr>lf_email = ''a@example.com'', lf_password = ''Secreta1!'', lf_remember_me = False\<rparr>"

definition ana_wrong_login :: LoginForm where
  "ana_wrong_login = \<lparr>lf_email = ''a@example.com'', lf_password = ''otra'', lf_remember_me = False\<rparr>"

definition unknown_login :: LoginForm where
  "unknown_login = \<lparr>lf_email = ''z@example.com'', lf_password = ''otra'', lf_remember_me = False\<rparr>"

definition ana_register :: RegisterForm where
  "ana_register =
     \<lparr>rf_email = ''a@example.com'', rf_first_name = ''Ana'', rf_paternal_last_name = ''Paz'',
      rf_maternal_last_name = ''Lara'', rf_birth_date = ''1990-01-01'', rf_gender = ''F'',
      rf_occupation = ''Docente'', rf_password = ''Nueva2!pass''\<rparr>"

section \<open>Helper lemmas\<close>

lemma Msg_attr_LOGOUT_USER: "Msg_attr ''Flash'' ''LOGOUT_USER'' = Inr LOGOUT_USER_text"
  by (simp add: Msg_attr_def Msg_def Msg_Flash_def)

lemma Msg_attr_INVALID_CREDENTIALS:
  "Msg_attr ''Flash'' ''INVALID_CREDENTIALS'' = Inr INVALID_CREDENTIALS_text"
  by (simp add: Msg_attr_def Msg_def Msg_Flash_def)

lemma Msg_attr_ERROR_EMAIL_IN_USE:
  "Msg_attr ''UserRegistration'' ''ERROR_EMAIL_IN_USE'' = Inr ERROR_EMAIL_IN_USE_text"
  by (simp add: Msg_attr_def Msg_def Msg_UserRegistration_def)

lemma Msg_attr_NEW_USER: "Msg_attr ''Flash'' ''NEW_USER'' = Inr ''Bienvenido {first_name}.''"
  by (simp add: Msg_attr_def Msg_def Msg_Flash_def)

lemma flash_Msg_resolved:
  "Msg_attr cls key = Inr m \<Longrightarrow>
   then_h (flash_Msg cls key) k s = k (s\<lparr>flashes := flashes s @ [m]\<rparr>)"
  by (simp add: then_h_def flash_Msg_def bind_h_def Msg_h_def flash_def)

lemma flash_Msg_raises:
  "Msg_attr cls key = Inl e \<Longrightarrow> then_h (flash_Msg cls key) k s = (Inl e, s)"
  by (simp add: then_h_def flash_Msg_def bind_h_def Msg_h_def)

lemma login_user_then:
  "then_h (login_user u r) k s =
     k (s\<lparr>current_user := Some u, login_fresh := True, remember := r\<rparr>)"
  by (simp add: then_h_def bind_h_def login_user_def)

lemma startswith_slash: "startswith n ''/'' \<longleftrightarrow> (\<exists>rest. n = CHR ''/'' # rest)"
  by (cases n) (auto simp add: startswith_def)


lemma redirect_UrlFor: "redirect (UrlFor e n) s = (Inr (Redirect (UrlFor e n)), s)"
  by (simp add: redirect_def)

lemma redirect_url_for: "redirect (url_for e) s = (Inr (Redirect (url_for e)), s)"
  by (simp add: redirect_def url_for_def)

lemma redirect_url_for_next:
  "redirect (url_for_next e n) s = (Inr (Redirect (url_for_next e n)), s)"
  by (simp add: redirect_def url_for_next_def)

lemma redirect_Path:
  "redirect (Path p) s =
     (if has_newline p
      then (Inl (ValueError ''Header values must not contain newline characters.''), s)
      else (Inr (Redirect (Path p)), s))"
  by (simp add: redirect_def)

lemmas then_redirect = redirect_UrlFor redirect_url_for redirect_url_for_next redirect_Path

lemma Msg_attr_PASSWORD_CHANGE_SUCCESFUL:
  "Msg_attr ''Flash'' ''PASSWORD_CHANGE_SUCCESFUL'' =
     Inl (AttributeError ''PASSWORD_CHANGE_SUCCESFUL'')"
  by (simp add: Msg_attr_def Msg_def Msg_Flash_def)

lemma find_consume:
  "find (\<lambda>k. tok_value k = t) ts = Some k \<Longrightarrow>
   find (\<lambda>k. tok_value k = t) (consume t ts) = Some (k\<lparr>tok_consumed := True\<rparr>)"
  by (induction ts) (auto simp add: consume_def)

lemma reset_password_once:
  assumes "fst (reset_password H now t pw s) = Inr True"
  shows "reset_password H now' t pw' (snd (reset_password H now t pw s)) =
           (Inr False, snd (reset_password H now t pw s))"
proof -
  from assms obtain k u where k: "find (\<lambda>k. tok_value k = t) (reset_tokens s) = Some k"
    and u: "get_user (tok_email k) s = Some u"
    and ok: "\<not> (tok_consumed k \<or> tok_expiry k \<le> now)"
    by (auto simp add: reset_password_def split: option.splits if_splits)
  have "reset_tokens (snd (reset_password H now t pw s)) = consume t (reset_tokens s)"
    using k u ok by (simp add: reset_password_def)
  then have "find (\<lambda>k. tok_value k = t) (reset_tokens (snd (reset_password H now t pw s))) =
      Some (k\<lparr>tok_consumed := True\<rparr>)"
    using find_consume [OF k] by simp
  then show ?thesis
    by (simp add: reset_password_def)
qed

lemma password_reset_state:
  "current_user s = None \<Longrightarrow>
   snd (password_reset H now t (Some f) s) = snd (reset_password H now t (pf_password f) s)"
  by (cases "reset_password H now t (pf_password f) s")
     (auto simp add: password_reset_def bind_h_def then_redirect
        flash_Msg_raises [OF Msg_attr_PASSWORD_CHANGE_SUCCESFUL] split: sum.splits)

lemma reset_password_session:
  "current_user (snd (reset_password H now t pw s)) = current_user s"
  by (simp add: reset_password_def split: option.splits)

lemma save_user_emails_distinct:
  "distinct (map email us) \<Longrightarrow> distinct (map email (save_user u us))"
proof (cases "find (\<lambda>v. email v = email u) us")
  case None
  assume d: "distinct (map email us)"
  from None have "email u \<notin> email ` set us"
    by (auto simp add: find_None_iff)
  with d None show ?thesis by (simp add: save_user_def)
next
  case (Some w)
  assume d: "distinct (map email us)"
  have "map email (map (\<lambda>v. if email v = email u then u else v) us) = map email us"
    by (induction us) auto
  with d have "distinct (map email (map (\<lambda>v. if email v = email u then u else v) us))"
    by (simp only:)
  with Some show ?thesis by (simp add: save_user_def del: map_map)
qed

lemma register_keeps_emails_distinct:
  assumes "distinct (map email (users s))"
  shows "distinct (map email (users (snd (register H form s))))"
proof (cases form)
  case None
  with assms show ?thesis by (simp add: register_def render_template_def return_h_def)
next
  case (Some f)
  show ?thesis
  proof (cases "get_user (rf_email f) s")
    case None
    with Some assms show ?thesis
      by (simp add: register_def Let_def then_h_def bind_h_def save_def login_user_def
          Msg_h_def Msg_attr_NEW_USER flash_def then_redirect save_user_emails_distinct)
  next
    case (Some u)
    with \<open>form = Some f\<close> assms show ?thesis
      by (simp add: register_def flash_Msg_resolved [OF Msg_attr_ERROR_EMAIL_IN_USE] then_redirect)
  qed
qed

section \<open>Claims\<close>

text \<open>
  C1. Every auth handler is claimed to end in a redirect plus a flash message, with the
  keys for the invalid-old-password, same-as-old-password, password-change-success,
  reset-email-sent and already-logged-in messages and for the reset mail subject
  resolving in the catalog. In the code none of these six keys is defined in \<open>Msg\<close>,
  and a logged-in caller of \<open>login\<close> gets an AttributeError instead of a redirect.
\<close>

theorem catalog_keys_unresolved:
  "Msg_attr ''Flash'' ''INVALID_OLD_PASSWORD'' = Inl (AttributeError ''INVALID_OLD_PASSWORD'') \<and>
   Msg_attr ''Flash'' ''SAME_AS_OLD_PASSWORD'' = Inl (AttributeError ''SAME_AS_OLD_PASSWORD'') \<and>
   Msg_attr ''Flash'' ''PASSWORD_CHANGE_SUCCESFUL'' =
     Inl (AttributeError ''PASSWORD_CHANGE_SUCCESFUL'') \<and>
   Msg_attr ''Flash'' ''PASSWORD_RESET_EMAIL_SENT'' =
     Inl (AttributeError ''PASSWORD_RESET_EMAIL_SENT'') \<and>
   Msg_attr ''Flash'' ''ALREADY_LOGGED_IN'' = Inl (AttributeError ''ALREADY_LOGGED_IN'') \<and>
   Msg_attr ''Mail'' ''RESET_PASSWORD_SUBJECT'' = Inl (AttributeError ''Mail'') \<and>
   login example_env None None logged_in_state =
     (Inl (AttributeError ''ALREADY_LOGGED_IN''), logged_in_state)"
  by (simp add: Msg_attr_def Msg_def Msg_Flash_def login_def logged_in_state_def
      anonymous_state_def then_h_def flash_Msg_def bind_h_def Msg_h_def)

text \<open>
  C2. After a successful login the handler redirects to home when \<open>next\<close> is absent or
  does not start with a slash, and to \<open>next\<close> when it starts with a slash and holds no
  carriage return or line feed; \<open>/dashboard\<close> is followed, \<open>http://evil.example.com\<close>
  is not. The session is established for the user. As the claim is written, for every
  \<open>next\<close> that starts with a slash, it fails: with a line feed in \<open>next\<close> the redirect
  call raises.
\<close>

theorem login_redirects_to_local_next:
  assumes "current_user s = None"
    and "get_user (lf_email f) s = Some u"
    and "check_password H u (lf_password f)"
  shows "login H None (Some f) s =
           (Inr (Redirect (url_for ''main.index'')),
            s\<lparr>current_user := Some u, login_fresh := True, remember := lf_remember_me f\<rparr>) \<and>
         (\<not> startswith n ''/'' \<longrightarrow>
            login H (Some n) (Some f) s =
              (Inr (Redirect (url_for ''main.index'')),
               s\<lparr>current_user := Some u, login_fresh := True,
                 remember := lf_remember_me f\<rparr>)) \<and>
         (startswith n ''/'' \<and> \<not> has_newline n \<longrightarrow>
            login H (Some n) (Some f) s =
              (Inr (Redirect (Path n)),
               s\<lparr>current_user := Some u, login_fresh := True,
                 remember := lf_remember_me f\<rparr>)) \<and>
         fst (login H (Some ''/dashboard'') (Some f) s) = Inr (Redirect (Path ''/dashboard'')) \<and>
         fst (login H (Some ''http://evil.example.com'') (Some f) s) =
           Inr (Redirect (url_for ''main.index''))"
  using assms
  by (simp add: login_def login_user_then then_redirect startswith_def has_newline_def Let_def)

theorem login_redirects_to_local_next_witness:
  "current_user anonymous_state = None \<and>
   get_user (lf_email ana_login) anonymous_state = Some ana \<and>
   check_password example_env ana (lf_password ana_login) \<and>
   startswith ''/cursos/3'' ''/'' \<and> \<not> has_newline ''/cursos/3'' \<and>
   fst (login example_env (Some ''/cursos/3'') (Some ana_login) anonymous_state) =
     Inr (Redirect (Path ''/cursos/3'')) \<and>
   current_user (snd (login example_env (Some ''/cursos/3'') (Some ana_login) anonymous_state)) =
     Some ana \<and>
   \<not> startswith ''http://evil.example.com'' ''/'' \<and>
   fst (login example_env (Some ''http://evil.example.com'') (Some ana_login) anonymous_state) =
     Inr (Redirect (url_for ''main.index''))"
proof -
  have h1: "current_user anonymous_state = None"
    by (simp add: anonymous_state_def)
  have h2: "get_user (lf_email ana_login) anonymous_state = Some ana"
    by (simp add: get_user_def anonymous_state_def ana_login_def ana_def)
  have h3: "check_password example_env ana (lf_password ana_login)"
    by (simp add: check_password_def example_env_def ana_def ana_login_def)
  have h4: "startswith ''/cursos/3'' ''/'' \<and> \<not> has_newline ''/cursos/3''"
    by (simp add: startswith_def has_newline_def)
  have h5: "\<not> startswith ''http://evil.example.com'' ''/''"
    by (simp add: startswith_def)
  note T = login_redirects_to_local_next [OF h1 h2 h3]
  note local = T [where n = "''/cursos/3''", THEN conjunct2, THEN conjunct2, THEN conjunct1,
    THEN mp, OF h4]
  note evil = T [where n = "''http://evil.example.com''", THEN conjunct2, THEN conjunct1,
    THEN mp, OF h5]
  show ?thesis
    using h1 h2 h3 h4 h5 by (simp add: local evil)
qed

theorem login_newline_next_counterexample:
  "current_user anonymous_state = None \<and>
   get_user (lf_email ana_login) anonymous_state = Some ana \<and>
   check_password example_env ana (lf_password ana_login) \<and>
   startswith (''/a'' @ [CHR 0x0A] @ ''b'') ''/'' \<and>
   fst (login example_env (Some (''/a'' @ [CHR 0x0A] @ ''b'')) (Some ana_login) anonymous_state) =
     Inl (ValueError ''Header values must not contain newline characters.'') \<and>
   fst (login example_env (Some (''/a'' @ [CHR 0x0A] @ ''b'')) (Some ana_login) anonymous_state) \<noteq>
     Inr (Redirect (Path (''/a'' @ [CHR 0x0A] @ ''b'')))"
  by (simp add: login_def anonymous_state_def ana_login_def ana_def example_env_def
      get_user_def check_password_def startswith_def login_user_then redirect_Path
      has_newline_def Let_def)

text \<open>
  C3. A login with an email that matches no user and a login with an existing email and
  a wrong password flash the same text, the one invalid-credentials message.
\<close>

theorem login_failures_flash_same_message:
  assumes "current_user s1 = None" and "current_user s2 = None"
    and "get_user (lf_email f1) s1 = None"
    and "get_user (lf_email f2) s2 = Some u"
    and "\<not> check_password H u (lf_password f2)"
  shows "flashes (snd (login H n1 (Some f1) s1)) = flashes s1 @ [INVALID_CREDENTIALS_text] \<and>
         flashes (snd (login H n2 (Some f2) s2)) = flashes s2 @ [INVALID_CREDENTIALS_text]"
  using assms
  by (simp add: login_def flash_Msg_resolved [OF Msg_attr_INVALID_CREDENTIALS] then_redirect
      Let_def)

theorem login_failures_flash_same_message_witness:
  "current_user anonymous_state = None \<and>
   get_user (lf_email unknown_login) anonymous_state = None \<and>
   get_user (lf_email ana_wrong_login) anonymous_state = Some ana \<and>
   \<not> check_password example_env ana (lf_password ana_wrong_login) \<and>
   flashes (snd (login example_env None (Some unknown_login) anonymous_state)) =
     [INVALID_CREDENTIALS_text] \<and>
   flashes (snd (login example_env (Some ''/x'') (Some ana_wrong_login) anonymous_state)) =
     [INVALID_CREDENTIALS_text]"
proof -
  have h1: "current_user anonymous_state = None"
    by (simp add: anonymous_state_def)
  have h2: "get_user (lf_email unknown_login) anonymous_state = None"
    by (simp add: get_user_def anonymous_state_def unknown_login_def ana_def)
  have h3: "get_user (lf_email ana_wrong_login) anonymous_state = Some ana"
    by (simp add: get_user_def anonymous_state_def ana_wrong_login_def ana_def)
  have h4: "\<not> check_password example_env ana (lf_password ana_wrong_login)"
    by (simp add: check_password_def example_env_def ana_def ana_wrong_login_def)
  have h5: "flashes anonymous_state = []"
    by (simp add: anonymous_state_def)
  show ?thesis
    using h1 h2 h3 h4 h5
      login_failures_flash_same_message [OF h1 h1 h2 h3 h4, where ?n1.0 = None
        and ?n2.0 = "Some ''/x''"]
    by simp
qed


text \<open>
  C4. A valid anonymous reset request is claimed to flash the reset-email-sent message
  and redirect to the login page whether or not the email is known, and to send a mail
  exactly when it is. In the code a known email gets a token issued and then an
  AttributeError at \<open>Msg.Mail\<close>, before \<open>send_email\<close> is called; an unknown email gets
  an AttributeError at \<open>Msg.Flash.PASSWORD_RESET_EMAIL_SENT\<close>. Neither flashes,
  redirects or sends.
\<close>

theorem password_reset_request_raises:
  "password_reset_request example_env 100 (Some \<lparr>qf_email = ''a@example.com''\<rparr>) anonymous_state =
     (Inl (AttributeError ''Mail''),
      anonymous_state\<lparr>reset_tokens :=
        [\<lparr>tok_value = 1, tok_email = ''a@example.com'', tok_expiry = 3700,
          tok_consumed = False\<rparr>]\<rparr>) \<and>
   password_reset_request example_env 100 (Some \<lparr>qf_email = ''z@example.com''\<rparr>) anonymous_state =
     (Inl (AttributeError ''PASSWORD_RESET_EMAIL_SENT''), anonymous_state) \<and>
   outbox (snd (password_reset_request example_env 100 (Some \<lparr>qf_email = ''a@example.com''\<rparr>)
     anonymous_state)) = []"
  by (simp add: password_reset_request_def anonymous_state_def ana_def example_env_def
      get_user_def then_h_def bind_h_def generate_reset_token_def fresh_token_def Msg_h_def
      Msg_attr_def Msg_def Msg_Flash_def flash_Msg_def return_h_def)

text \<open>
  C5. A valid change-password submission of a freshly logged-in user is claimed to be
  rejected with the same-as-old or the invalid-old-password message and an unchanged
  hash, to route to not-found when the user is gone, and otherwise to store the new
  hash and flash success. In the code the stored hashes are as claimed and the
  not-found route is taken, but each of the three messages is missing from the
  catalog: both rejections and the success path end in an AttributeError (the success
  path after the new hash is saved).
\<close>

theorem change_password_raises:
  "change_password example_env
     (Some \<lparr>cf_old_password = ''Secreta1!'', cf_password = ''Secreta1!''\<rparr>) logged_in_state =
     (Inl (AttributeError ''SAME_AS_OLD_PASSWORD''), logged_in_state) \<and>
   change_password example_env
     (Some \<lparr>cf_old_password = ''otra'', cf_password = ''Nueva2!pass''\<rparr>) logged_in_state =
     (Inl (AttributeError ''INVALID_OLD_PASSWORD''), logged_in_state) \<and>
   change_password example_env
     (Some \<lparr>cf_old_password = ''Secreta1!'', cf_password = ''Nueva2!pass''\<rparr>) logged_in_state =
     (Inl (AttributeError ''PASSWORD_CHANGE_SUCCESFUL''),
      logged_in_state\<lparr>users := [ana\<lparr>password_hash := ''h:Nueva2!pass''\<rparr>]\<rparr>) \<and>
   change_password example_env
     (Some \<lparr>cf_old_password = ''Secreta1!'', cf_password = ''Nueva2!pass''\<rparr>)
     (logged_in_state\<lparr>users := []\<rparr>) =
     (Inr (Redirect (url_for ''error.not_found'')), logged_in_state\<lparr>users := []\<rparr>)"
  by (simp add: change_password_def logged_in_state_def anonymous_state_def ana_def
      example_env_def check_password_def get_user_def then_h_def bind_h_def Msg_h_def
      Msg_attr_def Msg_def Msg_Flash_def flash_Msg_def save_def save_user_def then_redirect)

text \<open>
  C6. A valid registration whose email already belongs to a stored user is rejected
  with the email-in-use message and a redirect to the registration page; nothing is
  created or saved, the stored users are the same, and their emails stay distinct.
\<close>

theorem register_rejects_email_in_use:
  assumes "get_user (rf_email f) s = Some u"
  shows "register H (Some f) s =
           (Inr (Redirect (url_for ''auth.register'')),
            s\<lparr>flashes := flashes s @ [ERROR_EMAIL_IN_USE_text]\<rparr>) \<and>
         users (snd (register H (Some f) s)) = users s \<and>
         (distinct (map email (users s)) \<longrightarrow>
            distinct (map email (users (snd (register H (Some f) s)))))"
  using assms
  by (simp add: register_def flash_Msg_resolved [OF Msg_attr_ERROR_EMAIL_IN_USE] then_redirect)

theorem register_rejects_email_in_use_witness:
  "get_user (rf_email ana_register) anonymous_state = Some ana \<and>
   distinct (map email (users anonymous_state)) \<and>
   register example_env (Some ana_register) anonymous_state =
     (Inr (Redirect (url_for ''auth.register'')),
      anonymous_state\<lparr>flashes := [ERROR_EMAIL_IN_USE_text]\<rparr>) \<and>
   users (snd (register example_env (Some ana_register) anonymous_state)) = [ana] \<and>
   distinct (map email (users (snd (register example_env (Some ana_register) anonymous_state))))"
proof -
  have h1: "get_user (rf_email ana_register) anonymous_state = Some ana"
    by (simp add: get_user_def anonymous_state_def ana_register_def ana_def)
  have h2: "distinct (map email (users anonymous_state))"
    by (simp add: anonymous_state_def)
  have h3: "flashes anonymous_state = []" "users anonymous_state = [ana]"
    by (simp_all add: anonymous_state_def)
  show ?thesis
    using h1 h2 h3 register_rejects_email_in_use [OF h1, of example_env]
    by simp
qed

text \<open>
  C7. Once a token has changed a password through the token-reset flow, a second
  submission with the same token fails validation (\<open>reset_password\<close> returns False,
  at any later time and for any new password) and the handler redirects home with the
  state, and so the password, untouched.
\<close>

theorem reset_token_single_use:
  assumes "current_user s = None"
    and "fst (reset_password H now token (pf_password f1) s) = Inr True"
  shows "fst (reset_password H now' token pw (snd (password_reset H now token (Some f1) s))) =
           Inr False \<and>
         password_reset H now' token (Some f2) (snd (password_reset H now token (Some f1) s)) =
           (Inr (Redirect (url_for ''main.index'')),
            snd (password_reset H now token (Some f1) s))"
proof -
  let ?s' = "snd (reset_password H now token (pf_password f1) s)"
  have st: "snd (password_reset H now token (Some f1) s) = ?s'"
    using assms(1) by (rule password_reset_state)
  have anon: "current_user ?s' = None"
    using assms(1) by (simp add: reset_password_session)
  have again: "\<And>p. reset_password H now' token p ?s' = (Inr False, ?s')"
    using assms(2) by (rule reset_password_once)
  have first: "fst (reset_password H now' token pw ?s') = Inr False"
    by (simp add: again)
  have second: "password_reset H now' token (Some f2) ?s' =
      (Inr (Redirect (url_for ''main.index'')), ?s')"
    using anon by (simp add: password_reset_def bind_h_def again then_redirect)
  show ?thesis
    unfolding st by (rule conjI [OF first second])
qed

theorem reset_token_single_use_witness:
  "current_user token_state = None \<and>
   fst (reset_password example_env 100 1 (pf_password \<lparr>pf_password = ''Nueva2!pass''\<rparr>)
     token_state) = Inr True \<and>
   password_reset example_env 200 1 (Some \<lparr>pf_password = ''Otra3!pass''\<rparr>)
     (snd (password_reset example_env 100 1 (Some \<lparr>pf_password = ''Nueva2!pass''\<rparr>) token_state)) =
     (Inr (Redirect (url_for ''main.index'')),
      snd (password_reset example_env 100 1 (Some \<lparr>pf_password = ''Nueva2!pass''\<rparr>) token_state))"
proof -
  have h1: "current_user token_state = None"
    by (simp add: token_state_def anonymous_state_def)
  have h2: "fst (reset_password example_env 100 1 (pf_password \<lparr>pf_password = ''Nueva2!pass''\<rparr>)
      token_state) = Inr True"
    by (simp add: reset_password_def token_state_def anonymous_state_def get_user_def ana_def)
  show ?thesis
    using h1 h2
      reset_token_single_use [OF h1 h2, where now' = 200
        and ?f2.0 = "\<lparr>pf_password = ''Otra3!pass''\<rparr>"]
    by simp
qed

text \<open>
  C8. Logout always redirects to home. With a session it destroys the session and
  flashes the confirmation; without one it changes nothing. A second logout right
  after the first leaves the state of the first.
\<close>

theorem logout_idempotent:
  "fst (logout s) = Inr (Redirect (url_for ''main.index'')) \<and>
   (current_user s \<noteq> None \<longrightarrow>
      snd (logout s) =
        s\<lparr>current_user := None, login_fresh := False, remember := False,
          flashes := flashes s @ [LOGOUT_USER_text]\<rparr>) \<and>
   (current_user s = None \<longrightarrow> snd (logout s) = s) \<and>
   logout (snd (logout s)) = (Inr (Redirect (url_for ''main.index'')), snd (logout s))"
  by (simp add: logout_def then_h_def bind_h_def logout_user_def flash_Msg_def Msg_h_def
      Msg_attr_LOGOUT_USER flash_def then_redirect)

theorem logout_idempotent_witness:
  "current_user logged_in_state \<noteq> None \<and>
   current_user anonymous_state = None \<and>
   fst (logout logged_in_state) = Inr (Redirect (url_for ''main.index'')) \<and>
   snd (logout logged_in_state) = anonymous_state\<lparr>flashes := [LOGOUT_USER_text]\<rparr> \<and>
   logout (snd (logout logged_in_state)) =
     (Inr (Redirect (url_for ''main.index'')), snd (logout logged_in_state)) \<and>
   snd (logout anonymous_state) = anonymous_state"
proof -
  have h1: "current_user logged_in_state \<noteq> None"
    by (simp add: logged_in_state_def)
  have h2: "current_user anonymous_state = None"
    by (simp add: anonymous_state_def)
  have h3: "logged_in_state\<lparr>current_user := None, login_fresh := False, remember := False,
      flashes := flashes logged_in_state @ [LOGOUT_USER_text]\<rparr> =
      anonymous_state\<lparr>flashes := [LOGOUT_USER_text]\<rparr>"
    by (simp add: logged_in_state_def anonymous_state_def)
  note L = logout_idempotent [of logged_in_state]
  note A = logout_idempotent [of anonymous_state]
  note f1 = L [THEN conjunct1]
  note s1 = L [THEN conjunct2, THEN conjunct1, THEN mp, OF h1]
  note again = L [THEN conjunct2, THEN conjunct2, THEN conjunct2]
  note s2 = A [THEN conjunct2, THEN conjunct2, THEN conjunct1, THEN mp, OF h2]
  have s1': "snd (logout logged_in_state) = anonymous_state\<lparr>flashes := [LOGOUT_USER_text]\<rparr>"
    using s1 h3 by (rule trans)
  show ?thesis
    by (intro conjI h1 h2 f1 s1' again s2)
qed

text \<open>
  C9. The guard looks at the first character only: after a successful login every
  \<open>next\<close> that begins with a slash is handed to \<open>redirect\<close> unchanged and is never
  replaced by home; \<open>redirect\<close> answers with it unless it holds a carriage return or a
  line feed. So the protocol-relative \<open>//evil.example.com\<close> is followed unchanged.
\<close>

theorem login_follows_protocol_relative_next:
  assumes "current_user s = None"
    and "get_user (lf_email f) s = Some u"
    and "check_password H u (lf_password f)"
  shows "login H (Some (CHR ''/'' # rest)) (Some f) s =
           redirect (Path (CHR ''/'' # rest))
             (s\<lparr>current_user := Some u, login_fresh := True, remember := lf_remember_me f\<rparr>) \<and>
         (\<not> has_newline (CHR ''/'' # rest) \<longrightarrow>
            fst (login H (Some (CHR ''/'' # rest)) (Some f) s) =
              Inr (Redirect (Path (CHR ''/'' # rest)))) \<and>
         fst (login H (Some (CHR ''/'' # rest)) (Some f) s) \<noteq>
           Inr (Redirect (url_for ''main.index'')) \<and>
         fst (login H (Some ''//evil.example.com'') (Some f) s) =
           Inr (Redirect (Path ''//evil.example.com''))"
  using assms
  by (simp add: login_def login_user_then then_redirect startswith_def has_newline_def
      url_for_def Let_def)

theorem login_follows_protocol_relative_next_witness:
  "current_user anonymous_state = None \<and>
   get_user (lf_email ana_login) anonymous_state = Some ana \<and>
   check_password example_env ana (lf_password ana_login) \<and>
   \<not> has_newline ''//evil.example.com'' \<and>
   fst (login example_env (Some ''//evil.example.com'') (Some ana_login) anonymous_state) =
     Inr (Redirect (Path ''//evil.example.com''))"
proof -
  have h1: "current_user anonymous_state = None"
    by (simp add: anonymous_state_def)
  have h2: "get_user (lf_email ana_login) anonymous_state = Some ana"
    by (simp add: get_user_def anonymous_state_def ana_login_def ana_def)
  have h3: "check_password example_env ana (lf_password ana_login)"
    by (simp add: check_password_def example_env_def ana_def ana_login_def)
  have h4: "\<not> has_newline (CHR ''/'' # ''/evil.example.com'')"
    by (simp add: has_newline_def)
  note T = login_follows_protocol_relative_next [OF h1 h2 h3, of "''/evil.example.com''"]
  note followed = T [THEN conjunct2, THEN conjunct1, THEN mp, OF h4]
  show ?thesis
    using h1 h2 h3 h4 followed by simp
qed

text \<open>
  C10. The two login failures redirect differently: an unknown email goes to the login
  page without a \<open>next\<close> parameter, an existing email with a wrong password goes to the
  login page with the handler's \<open>next\<close> (the request's value when it starts with a
  slash, the home URL otherwise). The two responses are never equal.
\<close>

theorem login_failures_redirect_differently:
  assumes "current_user s = None"
    and "get_user (lf_email f1) s = None"
    and "get_user (lf_email f2) s = Some u"
    and "\<not> check_password H u (lf_password f2)"
  shows "fst (login H a (Some f1) s) = Inr (Redirect (UrlFor ''auth.login'' None)) \<and>
         (startswith n ''/'' \<longrightarrow>
            fst (login H (Some n) (Some f2) s) =
              Inr (Redirect (UrlFor ''auth.login'' (Some (Path n))))) \<and>
         (\<not> startswith n ''/'' \<longrightarrow>
            fst (login H (Some n) (Some f2) s) =
              Inr (Redirect (UrlFor ''auth.login'' (Some (UrlFor ''main.index'' None))))) \<and>
         fst (login H None (Some f2) s) =
           Inr (Redirect (UrlFor ''auth.login'' (Some (UrlFor ''main.index'' None)))) \<and>
         fst (login H a (Some f1) s) \<noteq> fst (login H a (Some f2) s)"
  using assms
  by (simp add: login_def flash_Msg_resolved [OF Msg_attr_INVALID_CREDENTIALS] then_redirect
      url_for_def url_for_next_def Let_def split: option.splits)

theorem login_failures_redirect_differently_witness:
  "current_user anonymous_state = None \<and>
   get_user (lf_email unknown_login) anonymous_state = None \<and>
   get_user (lf_email ana_wrong_login) anonymous_state = Some ana \<and>
   \<not> check_password example_env ana (lf_password ana_wrong_login) \<and>
   startswith ''/cursos/3'' ''/'' \<and>
   fst (login example_env (Some ''/cursos/3'') (Some unknown_login) anonymous_state) =
     Inr (Redirect (UrlFor ''auth.login'' None)) \<and>
   fst (login example_env (Some ''/cursos/3'') (Some ana_wrong_login) anonymous_state) =
     Inr (Redirect (UrlFor ''auth.login'' (Some (Path ''/cursos/3'')))) \<and>
   \<not> startswith ''http://evil.example.com'' ''/'' \<and>
   fst (login example_env (Some ''http://evil.example.com'') (Some ana_wrong_login)
     anonymous_state) =
     Inr (Redirect (UrlFor ''auth.login'' (Some (UrlFor ''main.index'' None))))"
proof -
  have h1: "current_user anonymous_state = None"
    by (simp add: anonymous_state_def)
  have h2: "get_user (lf_email unknown_login) anonymous_state = None"
    by (simp add: get_user_def anonymous_state_def unknown_login_def ana_def)
  have h3: "get_user (lf_email ana_wrong_login) anonymous_state = Some ana"
    by (simp add: get_user_def anonymous_state_def ana_wrong_login_def ana_def)
  have h4: "\<not> check_password example_env ana (lf_password ana_wrong_login)"
    by (simp add: check_password_def example_env_def ana_def ana_wrong_login_def)
  have h5: "startswith ''/cursos/3'' ''/''"
    by (simp add: startswith_def)
  have h6: "\<not> startswith ''http://evil.example.com'' ''/''"
    by (simp add: startswith_def)
  show ?thesis
    using h1 h2 h3 h4 h5 h6
      login_failures_redirect_differently [OF h1 h2 h3 h4, where n = "''/cursos/3''"
        and a = "Some ''/cursos/3''"]
      login_failures_redirect_differently [OF h1 h2 h3 h4, where n = "''http://evil.example.com''"
        and a = None]
    by simp
qed

end
